theory Spec2Isabelle
  imports Complex_Main
begin

section \<open>Data model of LayoutProvider.ts\<close>

text \<open>
  The TypeScript passes \<open>Dimension\<close> objects by reference and writes them in place, so
  the model keeps an explicit store: an object is an address, and \<open>heap\<close> gives the
  contents of the \<open>Dimension\<close> objects. The fields are numbers; following the data model
  (finite, non-negative reals) they are reals here, on which \<open>!==\<close> is \<open>\<noteq>\<close>.
  A type token is \<open>string | number\<close>; an index is a number.
\<close>

type_synonym addr = nat
type_synonym index = int

record Dimension =
  height :: real
  width :: real

datatype ltype = TStr string | TNum real

text \<open>\<open>Layout\<close> is declared in LayoutManager.ts; the provider only hands lists of it on.\<close>

typedecl Layout

text \<open>
  The argument of \<open>new CustomError({message, type})\<close>.
\<close>

record CustomError =
  message :: string
  etype :: string

text \<open>
  Modelled from the spec: the class \<open>WrapGridLayoutManager\<close> (LayoutManager.ts) is
  not part of the source at hand. An instance is an object of its own identity that keeps the
  arguments of its constructor; the provider passed as first argument is left out.
\<close>

record WrapGridLayoutManager =
  wg_self :: addr
  wg_renderWindowSize :: addr
  wg_isHorizontal :: "bool option"
  wg_cachedLayouts :: "Layout list option"

text \<open>
  Everything a call can read or write besides the provider's own fields: the \<open>Dimension\<close>
  objects, the counter object identities are drawn from, the caller-owned state \<open>ext\<close> the
  injected callbacks close over, and the max-bounds hints the layout managers have received.
  An injected callback is a function of that state: it gives its result and the state it
  leaves. A callback that throws or loops is the caller's affair and is not modelled.
\<close>

record 'e world =
  heap :: "addr \<Rightarrow> Dimension"
  nextObj :: addr
  ext :: 'e
  boundsLog :: "(WrapGridLayoutManager \<times> Dimension) list"

text \<open>
  Modelled from the spec: the class \<open>GridLayoutManager\<close> (LayoutManager.ts) is not
  part of the source at hand. An instance keeps the arguments of its constructor: the render
  window, the span-lookup callback, the max-span number and the cached layouts.
\<close>

record 'e GridLayoutManager =
  g_self :: addr
  g_renderWindowSize :: addr
  g_getColumnSpanForIndex :: "index \<Rightarrow> 'e world \<Rightarrow> real \<times> 'e world"
  g_maxSpan :: real
  g_cachedLayouts :: "Layout list option"

datatype 'e LayoutManager =
    WrapGridLM WrapGridLayoutManager
  | GridLM "'e GridLayoutManager"

text \<open>
  The slot \<open>_setLayoutForType\<close> holds either the function the caller injected, which
  receives the \<open>Dimension\<close> object to write, or the closure the constructor of
  \<open>GridLayoutProvider\<close> builds:
  \<open>(type, dim, index) => this.setComputedLayout(type, dim, index)\<close>.
\<close>

datatype 'e layoutSetter =
    Injected "ltype \<Rightarrow> addr \<Rightarrow> index \<Rightarrow> 'e world \<Rightarrow> 'e world"
  | ForwardToSetComputedLayout

record 'e LayoutProvider =
  p_getLayoutTypeForIndex :: "index \<Rightarrow> 'e world \<Rightarrow> ltype \<times> 'e world"
  p_setLayoutForType :: "'e layoutSetter"
  p_tempDim :: addr
  p_lastLayoutManager :: "WrapGridLayoutManager option"

record 'e GridLayoutProvider = "'e LayoutProvider" +
  p_setHeightForIndex :: "real \<Rightarrow> index \<Rightarrow> 'e world \<Rightarrow> real \<times> 'e world"
  p_getColumnSpanForIndex :: "index \<Rightarrow> 'e world \<Rightarrow> real \<times> 'e world"
  p_setMaxColumnSpan :: "'e world \<Rightarrow> real \<times> 'e world"

section \<open>Objects\<close>

definition alloc :: "Dimension \<Rightarrow> 'e world \<Rightarrow> addr \<times> 'e world" where
  "alloc d w =
     (nextObj w, w\<lparr>heap := (heap w)(nextObj w := d), nextObj := nextObj w + 1\<rparr>)"

definition new_WrapGridLayoutManager ::
  "addr \<Rightarrow> bool option \<Rightarrow> Layout list option \<Rightarrow> 'e world
     \<Rightarrow> WrapGridLayoutManager \<times> 'e world" where
  "new_WrapGridLayoutManager renderWindowSize isHorizontal cachedLayouts w =
     (\<lparr>wg_self = nextObj w, wg_renderWindowSize = renderWindowSize,
       wg_isHorizontal = isHorizontal, wg_cachedLayouts = cachedLayouts\<rparr>,
      w\<lparr>nextObj := nextObj w + 1\<rparr>)"

definition new_GridLayoutManager ::
  "addr \<Rightarrow> (index \<Rightarrow> 'e world \<Rightarrow> real \<times> 'e world) \<Rightarrow> real \<Rightarrow> Layout list option
     \<Rightarrow> 'e world \<Rightarrow> 'e GridLayoutManager \<times> 'e world" where
  "new_GridLayoutManager renderWindowSize getSpan maxSpan cachedLayouts w =
     (\<lparr>g_self = nextObj w, g_renderWindowSize = renderWindowSize,
       g_getColumnSpanForIndex = getSpan, g_maxSpan = maxSpan,
       g_cachedLayouts = cachedLayouts\<rparr>,
      w\<lparr>nextObj := nextObj w + 1\<rparr>)"

text \<open>
  Modelled from the spec: \<open>WrapGridLayoutManager.setMaxBounds\<close> is not part of the
  source at hand. The spec calls it a max-bounds hint given to the manager: the manager takes
  note of the dimension it is shown and writes nothing else.
\<close>

definition setMaxBounds :: "WrapGridLayoutManager \<Rightarrow> addr \<Rightarrow> 'e world \<Rightarrow> 'e world" where
  "setMaxBounds m itemDim w = w\<lparr>boundsLog := boundsLog w @ [(m, heap w itemDim)]\<rparr>"

section \<open>LayoutProvider\<close>

definition new_LayoutProvider ::
  "(index \<Rightarrow> 'e world \<Rightarrow> ltype \<times> 'e world)
     \<Rightarrow> (ltype \<Rightarrow> addr \<Rightarrow> index \<Rightarrow> 'e world \<Rightarrow> 'e world)
     \<Rightarrow> 'e world \<Rightarrow> 'e LayoutProvider \<times> 'e world" where
  "new_LayoutProvider getLayoutTypeForIndex' setLayoutForType w =
     (let (t, w') = alloc \<lparr>height = 0, width = 0\<rparr> w
      in (\<lparr>p_getLayoutTypeForIndex = getLayoutTypeForIndex',
           p_setLayoutForType = Injected setLayoutForType,
           p_tempDim = t,
           p_lastLayoutManager = None\<rparr>, w'))"

definition newLayoutManager ::
  "'e LayoutProvider \<Rightarrow> addr \<Rightarrow> bool option \<Rightarrow> Layout list option \<Rightarrow> 'e world
     \<Rightarrow> (CustomError + 'e LayoutManager) \<times> 'e LayoutProvider \<times> 'e world" where
  "newLayoutManager p renderWindowSize isHorizontal cachedLayouts w =
     (let (m, w') = new_WrapGridLayoutManager renderWindowSize isHorizontal cachedLayouts w
      in (Inr (WrapGridLM m), p\<lparr>p_lastLayoutManager := Some m\<rparr>, w'))"

definition getLayoutTypeForIndex ::
  "('e, 'z) LayoutProvider_scheme \<Rightarrow> index \<Rightarrow> 'e world \<Rightarrow> ltype \<times> 'e world" where
  "getLayoutTypeForIndex p idx w = p_getLayoutTypeForIndex p idx w"

text \<open>
  \<open>setComputedLayout\<close> calls the slot. When the slot is the closure of
  \<open>GridLayoutProvider\<close>, the closure calls \<open>setComputedLayout\<close> of the same object
  again, a method nothing overrides. \<open>None\<close> is a call that does not return.
\<close>

partial_function (option) setComputedLayout ::
  "('e, 'z) LayoutProvider_scheme \<Rightarrow> ltype \<Rightarrow> addr \<Rightarrow> index \<Rightarrow> 'e world
     \<Rightarrow> 'e world option" where
  "setComputedLayout p ty dimension idx w =
     (case p_setLayoutForType p of
        Injected f \<Rightarrow> Some (f ty dimension idx w)
      | ForwardToSetComputedLayout \<Rightarrow> setComputedLayout p ty dimension idx w)"

definition checkDimensionDiscrepancy ::
  "('e, 'z) LayoutProvider_scheme \<Rightarrow> addr \<Rightarrow> ltype \<Rightarrow> index \<Rightarrow> 'e world
     \<Rightarrow> (bool \<times> 'e world) option" where
  "checkDimensionDiscrepancy p dimension ty idx w =
     (let dimension1 = dimension in
      case setComputedLayout p ty (p_tempDim p) idx w of
        None \<Rightarrow> None
      | Some w1 \<Rightarrow>
          let dimension2 = p_tempDim p;
              w2 = (case p_lastLayoutManager p of
                      Some m \<Rightarrow> setMaxBounds m dimension2 w1
                    | None \<Rightarrow> w1)
          in Some (height (heap w2 dimension1) \<noteq> height (heap w2 dimension2)
                   \<or> width (heap w2 dimension1) \<noteq> width (heap w2 dimension2), w2))"

section \<open>GridLayoutProvider\<close>

definition new_GridLayoutProvider ::
  "(index \<Rightarrow> 'e world \<Rightarrow> ltype \<times> 'e world)
     \<Rightarrow> (real \<Rightarrow> index \<Rightarrow> 'e world \<Rightarrow> real \<times> 'e world)
     \<Rightarrow> (index \<Rightarrow> 'e world \<Rightarrow> real \<times> 'e world)
     \<Rightarrow> ('e world \<Rightarrow> real \<times> 'e world)
     \<Rightarrow> 'e world \<Rightarrow> 'e GridLayoutProvider \<times> 'e world" where
  "new_GridLayoutProvider getLayoutTypeForIndex' setHeightForIndex' getColumnSpanForIndex'
       setMaxColumnSpan' w =
     (let (t, w') = alloc \<lparr>height = 0, width = 0\<rparr> w
      in (\<lparr>p_getLayoutTypeForIndex = getLayoutTypeForIndex',
           p_setLayoutForType = ForwardToSetComputedLayout,
           p_tempDim = t,
           p_lastLayoutManager = None,
           p_setHeightForIndex = setHeightForIndex',
           p_getColumnSpanForIndex = getColumnSpanForIndex',
           p_setMaxColumnSpan = setMaxColumnSpan'\<rparr>, w'))"

definition GridLayoutProvider_newLayoutManager ::
  "'e GridLayoutProvider \<Rightarrow> addr \<Rightarrow> bool option \<Rightarrow> Layout list option \<Rightarrow> 'e world
     \<Rightarrow> (CustomError + 'e LayoutManager) \<times> 'e GridLayoutProvider \<times> 'e world" where
  "GridLayoutProvider_newLayoutManager p renderWindowSize isHorizontal cachedLayouts w =
     (if isHorizontal = Some True then
        (Inl \<lparr>message = ''Horizontal support not available for Grid Layouts'',
              etype = ''NotSupportedException''\<rparr>, p, w)
      else
        let (maxSpan, w1) = p_setMaxColumnSpan p w;
            (m, w2) = new_GridLayoutManager renderWindowSize (p_getColumnSpanForIndex p)
                        maxSpan cachedLayouts w1
        in (Inr (GridLM m), p, w2))"

definition setMaxColumnSpan :: "'e GridLayoutProvider \<Rightarrow> 'e world \<Rightarrow> real \<times> 'e world" where
  "setMaxColumnSpan p w = p_setMaxColumnSpan p w"

definition getColumnSpanForIndex ::
  "'e GridLayoutProvider \<Rightarrow> index \<Rightarrow> 'e world \<Rightarrow> real \<times> 'e world" where
  "getColumnSpanForIndex p idx w = p_getColumnSpanForIndex p idx w"

definition setHeightForIndex ::
  "'e GridLayoutProvider \<Rightarrow> real \<Rightarrow> index \<Rightarrow> 'e world \<Rightarrow> real \<times> 'e world" where
  "setHeightForIndex p h idx w = p_setHeightForIndex p h idx w"

section \<open>Properties of injected functions, repeated calls\<close>

text \<open>Two dimensions differ when their heights or their widths do.\<close>

definition differs :: "Dimension \<Rightarrow> Dimension \<Rightarrow> bool" where
  "differs a b \<longleftrightarrow> height a \<noteq> height b \<or> width a \<noteq> width b"

text \<open>
  A compute function that writes no \<open>Dimension\<close> object but the one it is handed.
\<close>

definition writes_only_given ::
  "(ltype \<Rightarrow> addr \<Rightarrow> index \<Rightarrow> 'e world \<Rightarrow> 'e world) \<Rightarrow> bool" where
  "writes_only_given f \<longleftrightarrow>
     (\<forall>ty a i w b. b \<noteq> a \<longrightarrow> heap (f ty a i w) b = heap w b)"

text \<open>
  A deterministic compute function: what it writes into the object it is handed is a function
  \<open>g\<close> of type and index alone, and it writes no other \<open>Dimension\<close> object.
\<close>

definition deterministic_compute ::
  "(ltype \<Rightarrow> addr \<Rightarrow> index \<Rightarrow> 'e world \<Rightarrow> 'e world)
     \<Rightarrow> (ltype \<Rightarrow> index \<Rightarrow> Dimension) \<Rightarrow> bool" where
  "deterministic_compute f g \<longleftrightarrow>
     (\<forall>ty a i w. heap (f ty a i w) = (heap w)(a := g ty i))"

text \<open>\<open>n\<close> calls of \<open>checkDimensionDiscrepancy\<close> in a row, with the same arguments.\<close>

fun repeatCheck ::
  "nat \<Rightarrow> ('e, 'z) LayoutProvider_scheme \<Rightarrow> addr \<Rightarrow> ltype \<Rightarrow> index \<Rightarrow> 'e world
     \<Rightarrow> (bool list \<times> 'e world) option" where
  "repeatCheck 0 p d ty i w = Some ([], w)"
| "repeatCheck (Suc n) p d ty i w =
     (case checkDimensionDiscrepancy p d ty i w of
        None \<Rightarrow> None
      | Some (b, w') \<Rightarrow>
          (case repeatCheck n p d ty i w' of
             None \<Rightarrow> None
           | Some (bs, w'') \<Rightarrow> Some (b # bs, w'')))"

text \<open>The max-span number a manager factory handed to the manager it returned, if any.\<close>

definition spanOf :: "(CustomError + 'e LayoutManager) \<Rightarrow> real option" where
  "spanOf r = (case r of Inr (GridLM m) \<Rightarrow> Some (g_maxSpan m) | _ \<Rightarrow> None)"

section \<open>Concrete configurations\<close>

definition empty_world :: "'e \<Rightarrow> 'e world" where
  "empty_world e =
     \<lparr>heap = (\<lambda>a. \<lparr>height = 0, width = 0\<rparr>), nextObj = 0, ext = e, boundsLog = []\<rparr>"

text \<open>
  The example of the spec: indices divisible by 3 are headers of 100 by 320, the others rows
  of 50 by 320.
\<close>

definition ex_classify :: "index \<Rightarrow> 'e world \<Rightarrow> ltype \<times> 'e world" where
  "ex_classify i w = (if i mod 3 = 0 then TStr ''header'' else TStr ''row'', w)"

definition ex_layout :: "ltype \<Rightarrow> index \<Rightarrow> Dimension" where
  "ex_layout ty i =
     (if ty = TStr ''header'' then \<lparr>height = 100, width = 320\<rparr>
      else \<lparr>height = 50, width = 320\<rparr>)"

definition ex_compute :: "ltype \<Rightarrow> addr \<Rightarrow> index \<Rightarrow> 'e world \<Rightarrow> 'e world" where
  "ex_compute ty dimension i w = w\<lparr>heap := (heap w)(dimension := ex_layout ty i)\<rparr>"

text \<open>
  A provider of that configuration (its scratch buffer is object 0), then a cached dimension of
  50 by 320 (object 1) and a render window (object 2), then a layout manager made by the
  provider (object 3).
\<close>

definition ex_provider :: "unit LayoutProvider" where
  "ex_provider = fst (new_LayoutProvider ex_classify ex_compute (empty_world ()))"

definition ex_cached :: addr where
  "ex_cached = 1"

definition ex_window :: addr where
  "ex_window = 2"

definition ex_world3 :: "unit world" where
  "ex_world3 =
     snd (alloc \<lparr>height = 640, width = 320\<rparr>
       (snd (alloc \<lparr>height = 50, width = 320\<rparr>
         (snd (new_LayoutProvider ex_classify ex_compute (empty_world ()))))))"

definition ex_managed :: "unit LayoutProvider" where
  "ex_managed = fst (snd (newLayoutManager ex_provider ex_window None None ex_world3))"

definition ex_world4 :: "unit world" where
  "ex_world4 = snd (snd (newLayoutManager ex_provider ex_window None None ex_world3))"

text \<open>
  A compute function that sets both fields of a header and only the height of anything else,
  and a provider built on it.
\<close>

definition ex_partial :: "ltype \<Rightarrow> addr \<Rightarrow> index \<Rightarrow> 'e world \<Rightarrow> 'e world" where
  "ex_partial ty dimension i w =
     (if ty = TStr ''header''
      then w\<lparr>heap := (heap w)(dimension := \<lparr>height = 100, width = 320\<rparr>)\<rparr>
      else w\<lparr>heap := (heap w)(dimension := (heap w dimension)\<lparr>height := 50\<rparr>)\<rparr>)"

definition ex_partial_provider :: "unit LayoutProvider" where
  "ex_partial_provider = fst (new_LayoutProvider ex_classify ex_partial (empty_world ()))"

definition ex_partial_world :: "unit world" where
  "ex_partial_world =
     snd (alloc \<lparr>height = 50, width = 320\<rparr>
       (snd (new_LayoutProvider ex_classify ex_partial (empty_world ()))))"

text \<open>The grid example of the spec: a max span of 4, a span of 2 at every index.\<close>

definition ex_setHeightForIndex :: "real \<Rightarrow> index \<Rightarrow> 'e world \<Rightarrow> real \<times> 'e world" where
  "ex_setHeightForIndex h i w = (h, w)"

definition ex_getColumnSpanForIndex :: "index \<Rightarrow> 'e world \<Rightarrow> real \<times> 'e world" where
  "ex_getColumnSpanForIndex i w = (2, w)"

definition ex_setMaxColumnSpan :: "'e world \<Rightarrow> real \<times> 'e world" where
  "ex_setMaxColumnSpan w = (4, w)"

definition ex_world :: "unit world" where
  "ex_world = empty_world ()"

definition ex_grid :: "unit GridLayoutProvider" where
  "ex_grid = fst (new_GridLayoutProvider ex_classify ex_setHeightForIndex
                    ex_getColumnSpanForIndex ex_setMaxColumnSpan ex_world)"

text \<open>
  A max-span source over caller-owned state: it yields the number the caller holds at the
  moment and counts the call by raising that number.
\<close>

definition ex_countingMaxSpan :: "nat world \<Rightarrow> real \<times> nat world" where
  "ex_countingMaxSpan w = (real (ext w), w\<lparr>ext := ext w + 1\<rparr>)"

text \<open>
  The state after the construction of \<open>ex_grid\<close> (scratch buffer: object 0), with a cached
  dimension (object 1) and a render window (object 2).
\<close>

definition ex_grid_world :: "unit world" where
  "ex_grid_world =
     snd (alloc \<lparr>height = 640, width = 320\<rparr>
       (snd (alloc \<lparr>height = 50, width = 320\<rparr>
         (snd (new_GridLayoutProvider ex_classify ex_setHeightForIndex
                 ex_getColumnSpanForIndex ex_setMaxColumnSpan ex_world)))))"

definition ex_counting_grid :: "nat GridLayoutProvider" where
  "ex_counting_grid = fst (new_GridLayoutProvider ex_classify ex_setHeightForIndex
                             ex_getColumnSpanForIndex ex_countingMaxSpan (empty_world 4))"

definition ex_counting_world :: "nat world" where
  "ex_counting_world = snd (new_GridLayoutProvider ex_classify ex_setHeightForIndex
                              ex_getColumnSpanForIndex ex_countingMaxSpan (empty_world 4))"

section \<open>The two cases of the slot, and the slot of a grid provider\<close>

lemma setComputedLayout_Injected:
  assumes "p_setLayoutForType p = Injected f"
  shows "setComputedLayout p ty d i w = Some (f ty d i w)"
  by (subst setComputedLayout.simps) (simp add: assms)

lemma setComputedLayout_Forward:
  assumes "p_setLayoutForType p = ForwardToSetComputedLayout"
  shows "setComputedLayout p ty d i w = None"
proof (rule ccontr)
  assume "setComputedLayout p ty d i w \<noteq> None"
  then obtain y where y: "setComputedLayout p ty d i w = Some y"
    by auto
  have "p_setLayoutForType p \<noteq> ForwardToSetComputedLayout"
    by (rule setComputedLayout.raw_induct
          [where P = "\<lambda>p ty d i w y. p_setLayoutForType p \<noteq> ForwardToSetComputedLayout",
           OF _ y])
       (auto split: layoutSetter.splits)
  with assms show False
    by simp
qed

lemma new_GridLayoutProvider_slot:
  "p_setLayoutForType (fst (new_GridLayoutProvider g sh gs sm w0)) = ForwardToSetComputedLayout"
  by (simp add: new_GridLayoutProvider_def alloc_def Let_def)

text \<open>
  C1. The constructor of \<open>GridLayoutProvider\<close> fills the dimension-callback slot with a
  closure that forwards into the provider's own \<open>setComputedLayout\<close>. With that slot a
  call of \<open>setComputedLayout\<close> or of \<open>checkDimensionDiscrepancy\<close> on a grid provider does
  not return, whatever the callbacks, the arguments and the state are: the method calls the
  slot and the slot calls the method. The claim that such a call terminates with the boolean
  of the base algorithm does not hold of the code.
\<close>

theorem GridLayoutProvider_setComputedLayout_never_returns:
  "p_setLayoutForType (fst (new_GridLayoutProvider g sh gs sm w0)) = ForwardToSetComputedLayout
   \<and> setComputedLayout (fst (new_GridLayoutProvider g sh gs sm w0)) ty d i w = None
   \<and> checkDimensionDiscrepancy (fst (new_GridLayoutProvider g sh gs sm w0)) d ty i w = None"
  by (simp add: checkDimensionDiscrepancy_def new_GridLayoutProvider_slot
        setComputedLayout_Forward [OF new_GridLayoutProvider_slot])

theorem GridLayoutProvider_setComputedLayout_never_returns_witness:
  "setComputedLayout ex_grid (TStr ''row'') ex_cached 7 ex_grid_world = None
   \<and> checkDimensionDiscrepancy ex_grid ex_cached (TStr ''row'') 7 ex_grid_world = None"
  unfolding ex_grid_def
  using GridLayoutProvider_setComputedLayout_never_returns
          [of ex_classify ex_setHeightForIndex ex_getColumnSpanForIndex ex_setMaxColumnSpan
              ex_world "TStr ''row''" ex_cached 7 ex_grid_world]
  by simp

section \<open>The discrepancy check of a provider with an injected compute function\<close>

lemma heap_setMaxBounds: "heap (setMaxBounds m a w) = heap w"
  by (simp add: setMaxBounds_def)

lemma checkDimensionDiscrepancy_Injected:
  assumes "p_setLayoutForType p = Injected f"
  shows "checkDimensionDiscrepancy p d ty i w =
           Some (height (heap (f ty (p_tempDim p) i w) d)
                   \<noteq> height (heap (f ty (p_tempDim p) i w) (p_tempDim p))
                 \<or> width (heap (f ty (p_tempDim p) i w) d)
                   \<noteq> width (heap (f ty (p_tempDim p) i w) (p_tempDim p)),
                 case p_lastLayoutManager p of
                   Some m \<Rightarrow> setMaxBounds m (p_tempDim p) (f ty (p_tempDim p) i w)
                 | None \<Rightarrow> f ty (p_tempDim p) i w)"
  by (simp add: checkDimensionDiscrepancy_def setComputedLayout_Injected [OF assms]
        heap_setMaxBounds Let_def split: option.split)

lemma new_LayoutProvider_fields:
  "p_setLayoutForType (fst (new_LayoutProvider g s w)) = Injected s"
  "p_getLayoutTypeForIndex (fst (new_LayoutProvider g s w)) = g"
  "p_tempDim (fst (new_LayoutProvider g s w)) = nextObj w"
  "p_lastLayoutManager (fst (new_LayoutProvider g s w)) = None"
  "heap (snd (new_LayoutProvider g s w)) = (heap w)(nextObj w := \<lparr>height = 0, width = 0\<rparr>)"
  by (simp_all add: new_LayoutProvider_def alloc_def Let_def)

lemma check_matching_step:
  assumes "p_setLayoutForType p = Injected f"
      and "deterministic_compute f g"
      and "heap w d = g ty i"
  shows "\<exists>w'. checkDimensionDiscrepancy p d ty i w = Some (False, w') \<and> heap w' d = g ty i"
  using assms(2,3)
  by (simp add: checkDimensionDiscrepancy_Injected [OF assms(1)] deterministic_compute_def
        heap_setMaxBounds split: option.split)

section \<open>The concrete configurations, evaluated\<close>

lemma ex_provider_fields:
  "p_setLayoutForType ex_provider = Injected ex_compute"
  "p_tempDim ex_provider = 0"
  "p_lastLayoutManager ex_provider = None"
  by (simp_all add: ex_provider_def new_LayoutProvider_fields empty_world_def)

lemma ex_world3_fields:
  "heap ex_world3 =
     (\<lambda>a. if a = 1 then \<lparr>height = 50, width = 320\<rparr>
          else if a = 2 then \<lparr>height = 640, width = 320\<rparr>
          else \<lparr>height = 0, width = 0\<rparr>)"
  "nextObj ex_world3 = 3"
  "boundsLog ex_world3 = []"
  by (auto simp add: ex_world3_def new_LayoutProvider_def alloc_def Let_def empty_world_def)

lemma ex_managed_fields:
  "p_setLayoutForType ex_managed = Injected ex_compute"
  "p_tempDim ex_managed = 0"
  "p_lastLayoutManager ex_managed =
     Some \<lparr>wg_self = 3, wg_renderWindowSize = 2, wg_isHorizontal = None,
           wg_cachedLayouts = None\<rparr>"
  by (simp_all add: ex_managed_def newLayoutManager_def new_WrapGridLayoutManager_def
        ex_provider_fields ex_world3_fields ex_window_def)

lemma ex_world4_fields:
  "heap ex_world4 = heap ex_world3"
  "boundsLog ex_world4 = []"
  by (simp_all add: ex_world4_def newLayoutManager_def new_WrapGridLayoutManager_def
        ex_world3_fields)

lemma ex_compute_deterministic: "deterministic_compute ex_compute ex_layout"
  by (simp add: deterministic_compute_def ex_compute_def)

lemma ex_compute_writes_only_given: "writes_only_given ex_compute"
  by (simp add: writes_only_given_def ex_compute_def)

lemma ex_partial_provider_fields:
  "p_setLayoutForType ex_partial_provider = Injected ex_partial"
  "p_tempDim ex_partial_provider = 0"
  "p_lastLayoutManager ex_partial_provider = None"
  by (simp_all add: ex_partial_provider_def new_LayoutProvider_fields empty_world_def)

lemma ex_partial_world_heap:
  "heap ex_partial_world =
     (\<lambda>a. if a = 1 then \<lparr>height = 50, width = 320\<rparr> else \<lparr>height = 0, width = 0\<rparr>)"
  by (auto simp add: ex_partial_world_def new_LayoutProvider_def alloc_def Let_def
        empty_world_def)

lemma ex_counting_fields:
  "p_setMaxColumnSpan ex_counting_grid = ex_countingMaxSpan"
  "ext ex_counting_world = 4"
  by (simp_all add: ex_counting_grid_def ex_counting_world_def new_GridLayoutProvider_def
        alloc_def Let_def empty_world_def)

text \<open>
  C3. For a provider built on an injected compute function \<open>f\<close>, whatever the caller's
  dimension, the type, the index and the state are, \<open>checkDimensionDiscrepancy\<close> returns, and
  its boolean is true exactly when the caller's dimension and the scratch buffer that \<open>f\<close>
  has just written for that type and index differ in height or differ in width, under plain
  inequality. When \<open>f\<close> does not touch the caller's own \<open>Dimension\<close> object, that is the
  dimension as the caller supplied it.
\<close>

theorem checkDimensionDiscrepancy_true_iff_differ:
  assumes "p_setLayoutForType p = Injected f"
      and "w1 = f ty (p_tempDim p) i w"
  shows "map_option fst (checkDimensionDiscrepancy p d ty i w)
           = Some (differs (heap w1 d) (heap w1 (p_tempDim p)))
         \<and> (heap w1 d = heap w d \<longrightarrow>
              map_option fst (checkDimensionDiscrepancy p d ty i w)
                = Some (differs (heap w d) (heap w1 (p_tempDim p))))"
  by (simp add: checkDimensionDiscrepancy_Injected [OF assms(1)] assms(2) differs_def)

theorem checkDimensionDiscrepancy_true_iff_differ_witness:
  "map_option fst (checkDimensionDiscrepancy ex_provider ex_cached (TStr ''header'') 3 ex_world3)
     = Some True
   \<and> map_option fst (checkDimensionDiscrepancy ex_provider ex_cached (TStr ''row'') 4 ex_world3)
     = Some False"
  using checkDimensionDiscrepancy_true_iff_differ
          [of ex_provider ex_compute "ex_compute (TStr ''header'') 0 3 ex_world3"
              "TStr ''header''" 3 ex_world3 ex_cached]
        checkDimensionDiscrepancy_true_iff_differ
          [of ex_provider ex_compute "ex_compute (TStr ''row'') 0 4 ex_world3"
              "TStr ''row''" 4 ex_world3 ex_cached]
  by (simp add: ex_provider_fields ex_world3_fields ex_cached_def ex_compute_def ex_layout_def
        differs_def)

text \<open>
  C4. For a provider built on an injected compute function, every call of
  \<open>checkDimensionDiscrepancy\<close> returns the result of the comparison, true or false. When
  the provider holds a last-created manager, the state after the call is the state the compute
  function left with one max-bounds hint added for that manager: the freshly computed
  contents of the scratch buffer. When it holds none, the state after the call is the state
  the compute function left, with no hint added. A provider holds none from its construction
  on, and holds the manager made from each call of \<open>newLayoutManager\<close> on.
\<close>

theorem checkDimensionDiscrepancy_propagates_bounds:
  assumes "p_setLayoutForType p = Injected f"
      and "w1 = f ty (p_tempDim p) i w"
      and "b = differs (heap w1 d) (heap w1 (p_tempDim p))"
  shows "(\<forall>m. p_lastLayoutManager p = Some m \<longrightarrow>
            checkDimensionDiscrepancy p d ty i w =
              Some (b, w1\<lparr>boundsLog := boundsLog w1 @ [(m, heap w1 (p_tempDim p))]\<rparr>))
         \<and> (p_lastLayoutManager p = None \<longrightarrow>
              checkDimensionDiscrepancy p d ty i w = Some (b, w1))
         \<and> p_lastLayoutManager (fst (new_LayoutProvider g f w0)) = None
         \<and> (\<exists>m. fst (newLayoutManager p win hor cached w0) = Inr (WrapGridLM m)
                \<and> p_lastLayoutManager (fst (snd (newLayoutManager p win hor cached w0)))
                  = Some m)"
  by (simp add: checkDimensionDiscrepancy_Injected [OF assms(1)] assms(2,3) setMaxBounds_def
        differs_def new_LayoutProvider_fields newLayoutManager_def
        new_WrapGridLayoutManager_def)

theorem checkDimensionDiscrepancy_propagates_bounds_witness:
  "map_option (\<lambda>r. (fst r, boundsLog (snd r)))
     (checkDimensionDiscrepancy ex_provider ex_cached (TStr ''row'') 4 ex_world3)
     = Some (False, [])
   \<and> map_option (\<lambda>r. (fst r, boundsLog (snd r)))
       (checkDimensionDiscrepancy ex_managed ex_cached (TStr ''row'') 4 ex_world4)
     = Some (False, [(the (p_lastLayoutManager ex_managed), \<lparr>height = 50, width = 320\<rparr>)])
   \<and> map_option (\<lambda>r. (fst r, boundsLog (snd r)))
       (checkDimensionDiscrepancy ex_managed ex_cached (TStr ''header'') 3 ex_world4)
     = Some (True, [(the (p_lastLayoutManager ex_managed), \<lparr>height = 100, width = 320\<rparr>)])"
  using checkDimensionDiscrepancy_propagates_bounds
          [of ex_provider ex_compute "ex_compute (TStr ''row'') 0 4 ex_world3"
              "TStr ''row''" 4 ex_world3 False ex_cached]
        checkDimensionDiscrepancy_propagates_bounds
          [of ex_managed ex_compute "ex_compute (TStr ''row'') 0 4 ex_world4"
              "TStr ''row''" 4 ex_world4 False ex_cached]
        checkDimensionDiscrepancy_propagates_bounds
          [of ex_managed ex_compute "ex_compute (TStr ''header'') 0 3 ex_world4"
              "TStr ''header''" 3 ex_world4 True ex_cached]
  by (simp add: differs_def checkDimensionDiscrepancy_Injected [OF ex_provider_fields(1)]
        checkDimensionDiscrepancy_Injected [OF ex_managed_fields(1)]
        ex_provider_fields ex_managed_fields ex_world3_fields ex_world4_fields ex_cached_def
        ex_compute_def ex_layout_def setMaxBounds_def)

text \<open>
  C5. For a provider built on an injected compute function \<open>f\<close>,
  \<open>checkDimensionDiscrepancy\<close> returns and the \<open>Dimension\<close> objects after the call are
  as \<open>f\<close>, handed the scratch buffer, left them: the provider writes none itself. So when
  \<open>f\<close> writes no object but the one it is handed, and the caller's dimension is not the
  scratch buffer itself, the caller's dimension has the same height and width after the call
  as before, and so has every \<open>Dimension\<close> object other than the scratch buffer.
\<close>

theorem checkDimensionDiscrepancy_writes_only_scratch:
  assumes "p_setLayoutForType p = Injected f"
  shows "\<exists>b w'. checkDimensionDiscrepancy p d ty i w = Some (b, w')
           \<and> heap w' = heap (f ty (p_tempDim p) i w)
           \<and> (writes_only_given f \<and> d \<noteq> p_tempDim p \<longrightarrow>
                heap w' d = heap w d
                \<and> (\<forall>a. a \<noteq> p_tempDim p \<longrightarrow> heap w' a = heap w a))"
  by (simp add: checkDimensionDiscrepancy_Injected [OF assms] writes_only_given_def
        heap_setMaxBounds split: option.split)

theorem checkDimensionDiscrepancy_writes_only_scratch_witness:
  "heap ex_world4 ex_cached = \<lparr>height = 50, width = 320\<rparr>
   \<and> map_option (\<lambda>r. (heap (snd r) ex_cached, heap (snd r) ex_window, heap (snd r) 0))
       (checkDimensionDiscrepancy ex_managed ex_cached (TStr ''header'') 3 ex_world4)
     = Some (\<lparr>height = 50, width = 320\<rparr>, \<lparr>height = 640, width = 320\<rparr>,
             \<lparr>height = 100, width = 320\<rparr>)"
proof -
  have "ex_cached \<noteq> p_tempDim ex_managed"
    by (simp add: ex_cached_def ex_managed_fields)
  with checkDimensionDiscrepancy_writes_only_scratch
         [OF ex_managed_fields(1), of ex_cached "TStr ''header''" 3 ex_world4]
       ex_compute_writes_only_given
  show ?thesis
    by (auto simp add: ex_managed_fields ex_world3_fields ex_world4_fields ex_cached_def
          ex_window_def ex_compute_def ex_layout_def)
qed

text \<open>
  C7, as the code has it. For a provider built on a deterministic compute function, and a
  caller's dimension that holds just what that function gives for the type and index:
  \<open>checkDimensionDiscrepancy\<close> returns false, and every one of \<open>n\<close> calls in a row with
  the same arguments returns false. (Without the second condition the check returns true, as
  the example of the spec shows.)
\<close>

theorem checkDimensionDiscrepancy_false_when_matching:
  assumes "p_setLayoutForType p = Injected f"
      and "deterministic_compute f g"
      and "heap w d = g ty i"
  shows "\<exists>w'. repeatCheck n p d ty i w = Some (replicate n False, w')"
  using assms(3)
proof (induction n arbitrary: w)
  case 0
  show ?case by simp
next
  case (Suc n)
  from check_matching_step [OF assms(1,2) Suc.prems]
  obtain w1 where c: "checkDimensionDiscrepancy p d ty i w = Some (False, w1)"
    and h: "heap w1 d = g ty i"
    by blast
  from Suc.IH [OF h] obtain w2 where "repeatCheck n p d ty i w1 = Some (replicate n False, w2)"
    by blast
  with c show ?case by simp
qed

theorem checkDimensionDiscrepancy_false_when_matching_witness:
  "map_option fst (repeatCheck 3 ex_provider ex_cached (TStr ''row'') 4 ex_world3)
     = Some [False, False, False]"
proof -
  have "heap ex_world3 ex_cached = ex_layout (TStr ''row'') 4"
    by (simp add: ex_world3_fields ex_cached_def ex_layout_def)
  from checkDimensionDiscrepancy_false_when_matching
         [OF ex_provider_fields(1) ex_compute_deterministic this, of 3]
  show ?thesis
    by (auto simp add: numeral_3_eq_3)
qed

text \<open>
  C7, as it is worded, fails on the example of the spec: the compute function is deterministic,
  the cached dimension is 50 by 320, the type is a header (100 by 320), and the check returns
  true.
\<close>

theorem deterministic_compute_discrepancy_counterexample:
  "deterministic_compute ex_compute ex_layout
   \<and> p_setLayoutForType ex_provider = Injected ex_compute
   \<and> map_option fst (checkDimensionDiscrepancy ex_provider ex_cached (TStr ''header'') 3 ex_world3)
       = Some True"
  by (simp add: ex_compute_deterministic ex_provider_fields ex_world3_fields ex_cached_def
        checkDimensionDiscrepancy_Injected [OF ex_provider_fields(1)] ex_compute_def ex_layout_def)

text \<open>
  C10. The constructor sets the scratch buffer to height 0 and width 0, and a check leaves in
  the scratch buffer what the compute function left there: nothing resets it. So, for a
  compute function \<open>f\<close> that does not touch the caller's own dimension: when \<open>f\<close> leaves
  the width of the scratch buffer as it finds it, the width of the caller's dimension is
  compared with the width the scratch buffer held when the call began, which on the first
  check after construction is 0; and likewise for the height when \<open>f\<close> leaves the height.
\<close>

theorem scratch_buffer_keeps_unwritten_field:
  assumes "p_setLayoutForType p = Injected f"
      and "w1 = f ty (p_tempDim p) i w"
      and "heap w1 d = heap w d"
      and "p0 = fst (new_LayoutProvider g f u)"
      and "u0 = snd (new_LayoutProvider g f u)"
      and "u1 = f ty (p_tempDim p0) i u0"
      and "heap u1 d = heap u0 d"
  shows "heap u0 (p_tempDim p0) = \<lparr>height = 0, width = 0\<rparr>
         \<and> map_option (\<lambda>r. heap (snd r) (p_tempDim p)) (checkDimensionDiscrepancy p d ty i w)
             = Some (heap w1 (p_tempDim p))
         \<and> (width (heap w1 (p_tempDim p)) = width (heap w (p_tempDim p)) \<longrightarrow>
              map_option fst (checkDimensionDiscrepancy p d ty i w)
                = Some (height (heap w d) \<noteq> height (heap w1 (p_tempDim p))
                        \<or> width (heap w d) \<noteq> width (heap w (p_tempDim p))))
         \<and> (height (heap w1 (p_tempDim p)) = height (heap w (p_tempDim p)) \<longrightarrow>
              map_option fst (checkDimensionDiscrepancy p d ty i w)
                = Some (height (heap w d) \<noteq> height (heap w (p_tempDim p))
                        \<or> width (heap w d) \<noteq> width (heap w1 (p_tempDim p))))
         \<and> (width (heap u1 (p_tempDim p0)) = width (heap u0 (p_tempDim p0)) \<longrightarrow>
              map_option fst (checkDimensionDiscrepancy p0 d ty i u0)
                = Some (height (heap u0 d) \<noteq> height (heap u1 (p_tempDim p0))
                        \<or> width (heap u0 d) \<noteq> 0))
         \<and> (height (heap u1 (p_tempDim p0)) = height (heap u0 (p_tempDim p0)) \<longrightarrow>
              map_option fst (checkDimensionDiscrepancy p0 d ty i u0)
                = Some (height (heap u0 d) \<noteq> 0
                        \<or> width (heap u0 d) \<noteq> width (heap u1 (p_tempDim p0))))"
proof -
  have slot0: "p_setLayoutForType p0 = Injected f"
    by (simp add: assms(4) new_LayoutProvider_fields)
  have init: "heap u0 (p_tempDim p0) = \<lparr>height = 0, width = 0\<rparr>"
    by (simp add: assms(4,5) new_LayoutProvider_fields)
  have left: "map_option (\<lambda>r. heap (snd r) (p_tempDim p)) (checkDimensionDiscrepancy p d ty i w)
                = Some (heap w1 (p_tempDim p))"
    by (simp add: checkDimensionDiscrepancy_Injected [OF assms(1)] assms(2) heap_setMaxBounds
          split: option.split)
  have cmp: "map_option fst (checkDimensionDiscrepancy p d ty i w)
               = Some (height (heap w d) \<noteq> height (heap w1 (p_tempDim p))
                       \<or> width (heap w d) \<noteq> width (heap w1 (p_tempDim p)))"
    using assms(3) by (simp add: checkDimensionDiscrepancy_Injected [OF assms(1)] assms(2))
  have cmp0: "map_option fst (checkDimensionDiscrepancy p0 d ty i u0)
                = Some (height (heap u0 d) \<noteq> height (heap u1 (p_tempDim p0))
                        \<or> width (heap u0 d) \<noteq> width (heap u1 (p_tempDim p0)))"
    using assms(7) by (simp add: checkDimensionDiscrepancy_Injected [OF slot0] assms(6))
  show ?thesis
    by (simp add: init left cmp cmp0)
qed

text \<open>
  On the concrete provider: the first check of a row compares the cached width 320 with the 0
  of construction and reports a discrepancy; once a check of a header has left 320 in the
  scratch buffer, the same check of the row reports none.
\<close>

theorem scratch_buffer_keeps_unwritten_field_witness:
  "map_option fst
     (checkDimensionDiscrepancy ex_partial_provider ex_cached (TStr ''row'') 4 ex_partial_world)
     = Some True
   \<and> Option.bind
       (checkDimensionDiscrepancy ex_partial_provider ex_cached (TStr ''header'') 3
          ex_partial_world)
       (\<lambda>r. map_option fst
              (checkDimensionDiscrepancy ex_partial_provider ex_cached (TStr ''row'') 4 (snd r)))
     = Some False"
proof -
  have first: "checkDimensionDiscrepancy ex_partial_provider ex_cached (TStr ''header'') 3
                 ex_partial_world
               = Some (True, ex_partial (TStr ''header'') 0 3 ex_partial_world)"
    by (simp add: checkDimensionDiscrepancy_Injected [OF ex_partial_provider_fields(1)]
          ex_partial_provider_fields ex_partial_world_heap ex_cached_def ex_partial_def)
  note inst = scratch_buffer_keeps_unwritten_field
                [OF ex_partial_provider_fields(1) refl _ ex_partial_provider_def refl refl _,
                 where ty = "TStr ''row''" and i = 4 and d = ex_cached]
  have row: "map_option fst
               (checkDimensionDiscrepancy ex_partial_provider ex_cached (TStr ''row'') 4
                  ex_partial_world)
             = Some True"
    using inst [where w = ex_partial_world]
    by (simp add: ex_partial_provider_fields ex_partial_world_heap ex_cached_def
          ex_partial_def)
  have again: "map_option fst
                 (checkDimensionDiscrepancy ex_partial_provider ex_cached (TStr ''row'') 4
                    (ex_partial (TStr ''header'') 0 3 ex_partial_world))
               = Some False"
    using inst [where w = "ex_partial (TStr ''header'') 0 3 ex_partial_world"]
    by (simp add: ex_partial_provider_fields ex_partial_world_heap ex_cached_def
          ex_partial_def)
  show ?thesis
    by (simp add: first row again)
qed

section \<open>The methods that only hand on\<close>

lemma new_GridLayoutProvider_fields:
  "p_getLayoutTypeForIndex (fst (new_GridLayoutProvider g sh gs sm w0)) = g"
  "p_setHeightForIndex (fst (new_GridLayoutProvider g sh gs sm w0)) = sh"
  "p_getColumnSpanForIndex (fst (new_GridLayoutProvider g sh gs sm w0)) = gs"
  "p_setMaxColumnSpan (fst (new_GridLayoutProvider g sh gs sm w0)) = sm"
  "p_lastLayoutManager (fst (new_GridLayoutProvider g sh gs sm w0)) = None"
  by (simp_all add: new_GridLayoutProvider_def alloc_def Let_def)

text \<open>
  C2. Whatever the render window, the cached layouts (given or not), the provider and the
  state are, \<open>newLayoutManager\<close> of a grid provider with \<open>isHorizontal\<close> true raises
  the error of type "NotSupportedException" with its message and returns no manager; the
  provider, its last-created-manager reference included, and the state are as before the call.
\<close>

theorem GridLayoutProvider_newLayoutManager_horizontal_raises:
  "GridLayoutProvider_newLayoutManager p renderWindowSize (Some True) cachedLayouts w =
     (Inl \<lparr>message = ''Horizontal support not available for Grid Layouts'',
           etype = ''NotSupportedException''\<rparr>, p, w)
   \<and> (\<nexists>m. fst (GridLayoutProvider_newLayoutManager p renderWindowSize (Some True)
                  cachedLayouts w) = Inr m)
   \<and> p_lastLayoutManager
       (fst (snd (GridLayoutProvider_newLayoutManager p renderWindowSize (Some True)
                    cachedLayouts w)))
     = p_lastLayoutManager p"
  by (simp add: GridLayoutProvider_newLayoutManager_def)

theorem GridLayoutProvider_newLayoutManager_horizontal_raises_witness:
  "map_sum etype id
     (fst (GridLayoutProvider_newLayoutManager ex_grid ex_window (Some True) None
             ex_grid_world))
     = Inl ''NotSupportedException''
   \<and> snd (GridLayoutProvider_newLayoutManager ex_grid ex_window (Some True) None ex_grid_world)
     = (ex_grid, ex_grid_world)"
  using GridLayoutProvider_newLayoutManager_horizontal_raises
          [of ex_grid ex_window None ex_grid_world]
  by simp

text \<open>
  C6. With \<open>isHorizontal\<close> false or absent, \<open>newLayoutManager\<close> of a grid provider
  returns a grid layout manager. The max-span number of that manager is what the injected
  max-span source returned in the state of the call, and the state after the call is the
  state that one call of the source left, with the new manager's identity taken from it. The
  manager holds the number, not the source: what the source returns later is no part of it.
\<close>

theorem GridLayoutProvider_newLayoutManager_vertical_span:
  assumes "isHorizontal = Some False \<or> isHorizontal = None"
      and "w1 = snd (p_setMaxColumnSpan p w)"
  shows "\<exists>m. GridLayoutProvider_newLayoutManager p renderWindowSize isHorizontal cachedLayouts w
               = (Inr (GridLM m), p, w1\<lparr>nextObj := nextObj w1 + 1\<rparr>)
             \<and> g_maxSpan m = fst (p_setMaxColumnSpan p w)
             \<and> g_getColumnSpanForIndex m = p_getColumnSpanForIndex p
             \<and> g_renderWindowSize m = renderWindowSize
             \<and> g_cachedLayouts m = cachedLayouts"
  using assms
  by (auto simp add: GridLayoutProvider_newLayoutManager_def new_GridLayoutManager_def
        split: prod.split)

text \<open>
  On the concrete provider whose source holds 4: the manager gets 4, the source has been
  called once (the caller's number is 5 after the call), and the source then yields 5 while
  the span of the manager made is 4.
\<close>

theorem GridLayoutProvider_newLayoutManager_vertical_span_witness:
  "spanOf (fst (GridLayoutProvider_newLayoutManager ex_counting_grid ex_window (Some False)
                  None ex_counting_world)) = Some 4
   \<and> ext (snd (snd (GridLayoutProvider_newLayoutManager ex_counting_grid ex_window
                       (Some False) None ex_counting_world))) = 5
   \<and> fst (setMaxColumnSpan ex_counting_grid
            (snd (snd (GridLayoutProvider_newLayoutManager ex_counting_grid ex_window
                         (Some False) None ex_counting_world)))) = 5
   \<and> spanOf (fst (GridLayoutProvider_newLayoutManager ex_counting_grid ex_window None
                    None ex_counting_world)) = Some 4"
  using GridLayoutProvider_newLayoutManager_vertical_span
          [of "Some False" "snd (ex_countingMaxSpan ex_counting_world)" ex_counting_grid
              ex_counting_world ex_window None]
        GridLayoutProvider_newLayoutManager_vertical_span
          [of None "snd (ex_countingMaxSpan ex_counting_world)" ex_counting_grid
              ex_counting_world ex_window None]
  by (auto simp add: ex_counting_fields spanOf_def setMaxColumnSpan_def ex_countingMaxSpan_def)

text \<open>
  C8. On a grid provider constructed with the callbacks \<open>sh\<close>, \<open>gs\<close> and \<open>sm\<close>, the
  methods \<open>setMaxColumnSpan\<close>, \<open>getColumnSpanForIndex\<close> and \<open>setHeightForIndex\<close>
  return, for every input and in every state, just what \<open>sm\<close>, \<open>gs\<close> and \<open>sh\<close> return
  there: the value and the state they leave.
\<close>

theorem GridLayoutProvider_pass_throughs:
  "setMaxColumnSpan (fst (new_GridLayoutProvider g sh gs sm w0)) w = sm w
   \<and> getColumnSpanForIndex (fst (new_GridLayoutProvider g sh gs sm w0)) idx w = gs idx w
   \<and> setHeightForIndex (fst (new_GridLayoutProvider g sh gs sm w0)) h idx w = sh h idx w"
  by (simp add: setMaxColumnSpan_def getColumnSpanForIndex_def setHeightForIndex_def
        new_GridLayoutProvider_fields)

text \<open>The example of the spec: a max span of 4 and a span of 2 at index 7.\<close>

theorem GridLayoutProvider_pass_throughs_witness:
  "fst (setMaxColumnSpan ex_grid ex_grid_world) = 4
   \<and> fst (getColumnSpanForIndex ex_grid 7 ex_grid_world) = 2
   \<and> fst (setHeightForIndex ex_grid 30 7 ex_grid_world) = 30"
  unfolding ex_grid_def
  using GridLayoutProvider_pass_throughs
          [of ex_classify ex_setHeightForIndex ex_getColumnSpanForIndex ex_setMaxColumnSpan
              ex_world ex_grid_world 7 30]
  by (simp add: ex_setMaxColumnSpan_def ex_getColumnSpanForIndex_def ex_setHeightForIndex_def)

text \<open>
  C9. On a provider constructed with the classification function \<open>g\<close>,
  \<open>getLayoutTypeForIndex\<close> returns for every index and in every state just what \<open>g\<close>
  returns there. So when the token \<open>g\<close> gives for an index does not depend on the state,
  two calls with that index, the second in the state the first left or in any other, return
  the same token.
\<close>

theorem getLayoutTypeForIndex_delegates:
  "getLayoutTypeForIndex (fst (new_LayoutProvider g s w0)) i w = g i w
   \<and> getLayoutTypeForIndex (fst (new_GridLayoutProvider g sh gs sm w0)) i w = g i w
   \<and> ((\<forall>u u'. fst (g i u) = fst (g i u')) \<longrightarrow>
        fst (getLayoutTypeForIndex (fst (new_LayoutProvider g s w0)) i
               (snd (getLayoutTypeForIndex (fst (new_LayoutProvider g s w0)) i w)))
          = fst (getLayoutTypeForIndex (fst (new_LayoutProvider g s w0)) i w)
        \<and> fst (getLayoutTypeForIndex (fst (new_LayoutProvider g s w0)) i w')
          = fst (getLayoutTypeForIndex (fst (new_LayoutProvider g s w0)) i w))"
  by (simp add: getLayoutTypeForIndex_def new_LayoutProvider_fields
        new_GridLayoutProvider_fields)

theorem getLayoutTypeForIndex_delegates_witness:
  "fst (getLayoutTypeForIndex ex_provider 3 ex_world3) = TStr ''header''
   \<and> fst (getLayoutTypeForIndex ex_provider 3
            (snd (getLayoutTypeForIndex ex_provider 3 ex_world3))) = TStr ''header''
   \<and> fst (getLayoutTypeForIndex ex_provider 4 ex_world3) = TStr ''row''"
  unfolding ex_provider_def
  using getLayoutTypeForIndex_delegates
          [of ex_classify ex_compute "empty_world ()" 3 ex_world3]
        getLayoutTypeForIndex_delegates
          [of ex_classify ex_compute "empty_world ()" 4 ex_world3]
  by (simp add: ex_classify_def)

end
